theory Spec2Isabelle
  imports Main "HOL-Library.Word"
begin

section \<open>The URL-resolution engine (url-service) and its durable store (storage-service)\<close>

text \<open>
  The url-service keeps three Go maps behind one mutex (\<open>urls\<close>, \<open>stats\<close>,
  \<open>createdAt\<close>) and talks to two collaborators over gRPC: the cache service and the
  storage service. Each handler is modelled as one function from the server state to an
  outcome: the response, the state afterwards, the tiers it read (in order) and the
  goroutines it started (in order). A handler runs to completion; the interleaving of
  concurrent handlers is outside the model. What a collaborator answers is a parameter
  (\<open>clients\<close>), and so are the clock readings.
\<close>

subsection \<open>Data\<close>

text \<open>
  An instant, counted in nanoseconds from Go's zero \<open>time.Time\<close>; the zero value a Go map
  read gives for an absent key is \<open>0\<close>.
\<close>

type_synonym time = int

text \<open>A gRPC client call returns \<open>(resp, err)\<close>: a transport error or a reply.\<close>

datatype 'a rpc = RpcError string | RpcOk 'a

text \<open>\<open>cache_service.GetResponse\<close>.\<close>

record GetResponse =
  get_Value :: string
  get_Found :: bool

text \<open>\<open>storage_service.GetURLResponse\<close> and \<open>GetStatsResponse\<close>.\<close>

record GetURLResponse =
  geturl_OriginalUrl :: string
  geturl_Found :: bool
  geturl_Error :: string

record GetStatsResponse =
  getstats_ShortCode :: string
  getstats_ClickCount :: "64 word"
  getstats_CreatedAt :: string
  getstats_Error :: string

text \<open>The responses of the url-service itself.\<close>

record ShortenResponse =
  shorten_ShortCode :: string
  shorten_OriginalUrl :: string
  shorten_Error :: string

record GetOriginalResponse =
  orig_OriginalUrl :: string
  orig_Found :: bool

record StatsResponse =
  stats_ShortCode :: string
  stats_ClickCount :: "64 word"
  stats_CreatedAt :: string
  stats_Error :: string

text \<open>\<open>type urlServer struct\<close>: the three maps (the mutex and the clients are not data).\<close>

record urlServer =
  urls :: "string \<rightharpoonup> string"
  stats :: "string \<rightharpoonup> 64 word"
  createdAt :: "string \<rightharpoonup> time"

text \<open>The synchronous calls a handler can make on its two clients.\<close>

record clients =
  cacheClient_Get :: "string \<Rightarrow> GetResponse rpc"
  storageClient_GetURL :: "string \<Rightarrow> GetURLResponse rpc"
  storageClient_GetStats :: "string \<Rightarrow> GetStatsResponse rpc"

text \<open>
  The tiers a handler reads, and the goroutines it starts (\<open>go func() {...}()\<close>): each
  goroutine makes exactly one remote call after the handler has gone on.
\<close>

datatype tier = FastCache | LocalState | DurableStore

datatype job =
  GoSaveURL string string
  | GoCacheSet string string nat
  | GoIncrementClick string

record 'r outcome =
  response :: 'r
  server :: urlServer
  consulted :: "tier list"
  spawned :: "job list"

definition NewURLServer :: urlServer where
  "NewURLServer = \<lparr>urls = Map.empty, stats = Map.empty, createdAt = Map.empty\<rparr>"

subsection \<open>Helpers of the url-service\<close>

text \<open>
  \<open>s.stats[shortCode]++\<close> on a Go map: an absent key reads as 0 and the write creates
  the entry; the int64 wraps.
\<close>

definition incrementStats :: "urlServer \<Rightarrow> string \<Rightarrow> urlServer \<times> job list" where
  "incrementStats s shortCode =
     (s\<lparr>stats := (stats s)(shortCode \<mapsto>
          (case stats s shortCode of None \<Rightarrow> 0 | Some n \<Rightarrow> n) + 1)\<rparr>,
      [GoIncrementClick shortCode])"

definition warmCache :: "string \<Rightarrow> string \<Rightarrow> job" where
  "warmCache shortCode originalURL = GoCacheSet shortCode originalURL 3600"

definition charset :: string where
  "charset = ''abcdefghijklmnopqrstuvwxyzABCDEFGHIJKLMNOPQRSTUVWXYZ0123456789''"

text \<open>
  \<open>generateShortCode\<close> reads the clock once per position. \<open>unixNano i\<close> is the reading
  of \<open>time.Now().UnixNano()\<close> at position \<open>i\<close>, a natural number (a clock after the Unix
  epoch), on which Go's \<open>%\<close> is \<open>mod\<close>; the index is below 62, inside the charset.
\<close>

definition generateShortCode :: "(nat \<Rightarrow> nat) \<Rightarrow> string" where
  "generateShortCode unixNano =
     map (\<lambda>i. charset ! (unixNano i mod length charset)) [0..<6]"

text \<open>\<open>err == nil && cacheResp.Found\<close>, with the value the hit carries.\<close>

fun cache_hit :: "GetResponse rpc \<Rightarrow> string option" where
  "cache_hit (RpcError e) = None"
| "cache_hit (RpcOk cacheResp) =
     (if get_Found cacheResp then Some (get_Value cacheResp) else None)"

text \<open>\<open>err == nil && storageResp.Found\<close>, with the URL the hit carries.\<close>

fun storage_hit :: "GetURLResponse rpc \<Rightarrow> string option" where
  "storage_hit (RpcError e) = None"
| "storage_hit (RpcOk storageResp) =
     (if geturl_Found storageResp then Some (geturl_OriginalUrl storageResp) else None)"

subsection \<open>Handlers of the url-service\<close>

definition ShortenURL ::
  "(nat \<Rightarrow> nat) \<Rightarrow> time \<Rightarrow> urlServer \<Rightarrow> string \<Rightarrow> string \<Rightarrow> ShortenResponse outcome" where
  "ShortenURL unixNano now s originalUrl customAlias =
     (let generated = generateShortCode unixNano;
          shortCode = (if customAlias \<noteq> [] then customAlias else generated)
      in if urls s shortCode \<noteq> None then
           \<lparr>response = \<lparr>shorten_ShortCode = [], shorten_OriginalUrl = [],
                         shorten_Error = ''Custom alias already exists''\<rparr>,
            server = s, consulted = [LocalState], spawned = []\<rparr>
         else
           \<lparr>response = \<lparr>shorten_ShortCode = shortCode, shorten_OriginalUrl = originalUrl,
                         shorten_Error = []\<rparr>,
            server = s\<lparr>urls := (urls s)(shortCode \<mapsto> originalUrl),
                       stats := (stats s)(shortCode \<mapsto> 0),
                       createdAt := (createdAt s)(shortCode \<mapsto> now)\<rparr>,
            consulted = [LocalState],
            spawned = [GoSaveURL shortCode originalUrl,
                       GoCacheSet shortCode originalUrl 360]\<rparr>)"

definition GetOriginalURL ::
  "clients \<Rightarrow> time \<Rightarrow> urlServer \<Rightarrow> string \<Rightarrow> GetOriginalResponse outcome" where
  "GetOriginalURL cl now s shortCode =
     (case cache_hit (cacheClient_Get cl shortCode) of
        Some v \<Rightarrow>
          (let (s1, js) = incrementStats s shortCode
           in \<lparr>response = \<lparr>orig_OriginalUrl = v, orig_Found = True\<rparr>,
               server = s1, consulted = [FastCache], spawned = js\<rparr>)
      | None \<Rightarrow>
          (case urls s shortCode of
             Some originalURL \<Rightarrow>
               (let (s1, js) = incrementStats s shortCode
                in \<lparr>response = \<lparr>orig_OriginalUrl = originalURL, orig_Found = True\<rparr>,
                    server = s1, consulted = [FastCache, LocalState],
                    spawned = warmCache shortCode originalURL # js\<rparr>)
           | None \<Rightarrow>
               (case storage_hit (storageClient_GetURL cl shortCode) of
                  Some u \<Rightarrow>
                    (let s1 = s\<lparr>urls := (urls s)(shortCode \<mapsto> u),
                                 stats := (stats s)(shortCode \<mapsto> 0),
                                 createdAt := (createdAt s)(shortCode \<mapsto> now)\<rparr>;
                         (s2, js) = incrementStats s1 shortCode
                     in \<lparr>response = \<lparr>orig_OriginalUrl = u, orig_Found = True\<rparr>,
                         server = s2,
                         consulted = [FastCache, LocalState, DurableStore],
                         spawned = warmCache shortCode u # js\<rparr>)
                | None \<Rightarrow>
                    \<lparr>response = \<lparr>orig_OriginalUrl = [], orig_Found = False\<rparr>,
                     server = s,
                     consulted = [FastCache, LocalState, DurableStore],
                     spawned = []\<rparr>)))"

definition not_found :: StatsResponse where
  "not_found = \<lparr>stats_ShortCode = [], stats_ClickCount = 0, stats_CreatedAt = [],
                 stats_Error = ''URL not found''\<rparr>"

text \<open>
  \<open>RFC3339\<close> stands for \<open>createdAt.Format(time.RFC3339)\<close>. The existence test is on the
  \<open>stats\<close> map alone; \<open>createdAt\<close> is read without one, so an absent key gives the zero time.
\<close>

definition GetURLStats ::
  "clients \<Rightarrow> (time \<Rightarrow> string) \<Rightarrow> urlServer \<Rightarrow> string \<Rightarrow> StatsResponse outcome" where
  "GetURLStats cl RFC3339 s shortCode =
     (case stats s shortCode of
        None \<Rightarrow>
          (case storageClient_GetStats cl shortCode of
             RpcOk storageResp \<Rightarrow>
               (if getstats_Error storageResp = [] then
                  \<lparr>response = \<lparr>stats_ShortCode = shortCode,
                                stats_ClickCount = getstats_ClickCount storageResp,
                                stats_CreatedAt = getstats_CreatedAt storageResp,
                                stats_Error = []\<rparr>,
                   server = s, consulted = [LocalState, DurableStore], spawned = []\<rparr>
                else
                  \<lparr>response = not_found, server = s,
                   consulted = [LocalState, DurableStore], spawned = []\<rparr>)
           | RpcError e \<Rightarrow>
               \<lparr>response = not_found, server = s,
                consulted = [LocalState, DurableStore], spawned = []\<rparr>)
      | Some clickCount \<Rightarrow>
          \<lparr>response = \<lparr>stats_ShortCode = shortCode, stats_ClickCount = clickCount,
                        stats_CreatedAt =
                          RFC3339 (case createdAt s shortCode of None \<Rightarrow> 0 | Some t \<Rightarrow> t),
                        stats_Error = []\<rparr>,
           server = s, consulted = [LocalState], spawned = []\<rparr>)"

subsection \<open>The storage-service read handlers\<close>

text \<open>
  The \<open>urls\<close> table as a map from \<open>short_code\<close> to its row; a query either fails in the
  database (\<open>fault\<close>), finds no row (\<open>sql.ErrNoRows\<close>) or scans the row.
\<close>

record row =
  original_url :: string
  click_count :: "64 word"
  created_at :: time

datatype scan = ErrNoRows | ErrOther string | Scanned row

definition QueryRow :: "(string \<rightharpoonup> row) \<Rightarrow> string option \<Rightarrow> string \<Rightarrow> scan" where
  "QueryRow db fault short_code =
     (case fault of
        Some e \<Rightarrow> ErrOther e
      | None \<Rightarrow> (case db short_code of None \<Rightarrow> ErrNoRows | Some r \<Rightarrow> Scanned r))"

definition storage_GetURL ::
  "(string \<rightharpoonup> row) \<Rightarrow> string option \<Rightarrow> string \<Rightarrow> GetURLResponse" where
  "storage_GetURL db fault shortCode =
     (case QueryRow db fault shortCode of
        ErrNoRows \<Rightarrow>
          \<lparr>geturl_OriginalUrl = [], geturl_Found = False, geturl_Error = []\<rparr>
      | ErrOther e \<Rightarrow>
          \<lparr>geturl_OriginalUrl = [], geturl_Found = False, geturl_Error = e\<rparr>
      | Scanned r \<Rightarrow>
          \<lparr>geturl_OriginalUrl = original_url r, geturl_Found = True, geturl_Error = []\<rparr>)"

definition storage_GetStats ::
  "(string \<rightharpoonup> row) \<Rightarrow> string option \<Rightarrow> (time \<Rightarrow> string) \<Rightarrow> string \<Rightarrow> GetStatsResponse" where
  "storage_GetStats db fault RFC3339 shortCode =
     (case QueryRow db fault shortCode of
        ErrNoRows \<Rightarrow>
          \<lparr>getstats_ShortCode = [], getstats_ClickCount = 0, getstats_CreatedAt = [],
           getstats_Error = ''URL not found''\<rparr>
      | ErrOther e \<Rightarrow>
          \<lparr>getstats_ShortCode = [], getstats_ClickCount = 0, getstats_CreatedAt = [],
           getstats_Error = e\<rparr>
      | Scanned r \<Rightarrow>
          \<lparr>getstats_ShortCode = shortCode, getstats_ClickCount = click_count r,
           getstats_CreatedAt = RFC3339 (created_at r), getstats_Error = []\<rparr>)"

text \<open>
  The clients of a url-service whose cache answers \<open>cache\<close> and whose storage service
  is reachable and runs the handlers above on the table \<open>db\<close>.
\<close>

definition wired :: "(string \<Rightarrow> GetResponse rpc) \<Rightarrow> (string \<rightharpoonup> row) \<Rightarrow> string option \<Rightarrow>
    (time \<Rightarrow> string) \<Rightarrow> clients" where
  "wired cache db fault RFC3339 =
     \<lparr>cacheClient_Get = cache,
      storageClient_GetURL = (\<lambda>c. RpcOk (storage_GetURL db fault c)),
      storageClient_GetStats = (\<lambda>c. RpcOk (storage_GetStats db fault RFC3339 c))\<rparr>"

subsection \<open>Properties of a server state\<close>

text \<open>The three maps hold the same short codes.\<close>

definition keys_agree :: "urlServer \<Rightarrow> bool" where
  "keys_agree s \<longleftrightarrow> dom (stats s) = dom (urls s) \<and> dom (createdAt s) = dom (urls s)"

text \<open>The in-process click counter of a code, as the signed 64-bit number Go reads.\<close>

definition count :: "urlServer \<Rightarrow> string \<Rightarrow> int" where
  "count s c = (case stats s c of None \<Rightarrow> 0 | Some n \<Rightarrow> sint n)"

subsection \<open>Concrete collaborators and states\<close>

text \<open>A clock whose every reading is a multiple of 62: the generated code is \<open>aaaaaa\<close>.\<close>

definition clock_a :: "nat \<Rightarrow> nat" where
  "clock_a i = 0"

text \<open>A clock that moves on after the first six readings.\<close>

definition clock_switch :: "nat \<Rightarrow> nat" where
  "clock_switch i = (if i < 6 then 0 else 1)"

definition stamp :: "time \<Rightarrow> string" where
  "stamp t = (if t = 0 then ''0001-01-01T00:00:00Z'' else ''2025-01-01T00:00:00Z'')"

definition cache_down :: "string \<Rightarrow> GetResponse rpc" where
  "cache_down k = RpcError ''unavailable''"

definition cache_empty :: "string \<Rightarrow> GetResponse rpc" where
  "cache_empty k = RpcOk \<lparr>get_Value = [], get_Found = False\<rparr>"

definition cache_holding :: "string \<Rightarrow> string \<Rightarrow> string \<Rightarrow> GetResponse rpc" where
  "cache_holding k v k' =
     (if k' = k then RpcOk \<lparr>get_Value = v, get_Found = True\<rparr>
      else RpcOk \<lparr>get_Value = [], get_Found = False\<rparr>)"

definition storage_down :: clients where
  "storage_down =
     \<lparr>cacheClient_Get = cache_down,
      storageClient_GetURL = (\<lambda>c. RpcError ''connection refused''),
      storageClient_GetStats = (\<lambda>c. RpcError ''connection refused'')\<rparr>"

definition table_abc :: "string \<rightharpoonup> row" where
  "table_abc =
     [''abc123'' \<mapsto> \<lparr>original_url = ''https://x.com'', click_count = 7, created_at = 9\<rparr>]"

text \<open>The cache still holds \<open>abc123\<close>; later its entry has expired.\<close>

definition cached_abc :: clients where
  "cached_abc = wired (cache_holding ''abc123'' ''https://x.com'') table_abc None stamp"

definition expired_abc :: clients where
  "expired_abc = wired cache_empty table_abc None stamp"

definition promo_server :: urlServer where
  "promo_server =
     server (ShortenURL clock_a 5 NewURLServer ''https://first.example'' ''promo'')"

definition local_promo :: urlServer where
  "local_promo =
     server (ShortenURL clock_a 5 NewURLServer ''https://local.example'' ''promo'')"

definition taken_server :: urlServer where
  "taken_server = server (ShortenURL clock_a 5 NewURLServer ''https://first.example'' [])"

text \<open>A fresh process that has resolved \<open>abc123\<close> once through the cache.\<close>

definition once :: urlServer where
  "once = server (GetOriginalURL cached_abc 1 NewURLServer ''abc123'')"

text \<open>A fresh process that has resolved \<open>abc123\<close> three times through the cache.\<close>

definition thrice :: urlServer where
  "thrice =
     server (GetOriginalURL cached_abc 3
       (server (GetOriginalURL cached_abc 2
         (server (GetOriginalURL cached_abc 1 NewURLServer ''abc123'')) ''abc123'')) ''abc123'')"

section \<open>Basic facts\<close>

lemma generateShortCode_length: "length (generateShortCode unixNano) = 6"
  by (simp add: generateShortCode_def)

lemma generateShortCode_clock_a: "generateShortCode clock_a = ''aaaaaa''"
  by (simp add: generateShortCode_def clock_a_def charset_def upt_rec)

lemma generateShortCode_clock_switch: "generateShortCode clock_switch = ''aaaaaa''"
  by (simp add: generateShortCode_def clock_switch_def charset_def upt_rec)

text \<open>The code depends on the first six clock readings only: it is generated once.\<close>

lemma generateShortCode_cong:
  "\<forall>i<6. unixNano' i = unixNano i \<Longrightarrow> generateShortCode unixNano' = generateShortCode unixNano"
  by (simp add: generateShortCode_def)

text \<open>
  The durable store's answer plays no part once the cache or local state has hit, and
  local state plays none in the response once the cache has hit.
\<close>

lemma GetOriginalURL_ignores_storage:
  "cache_hit (cacheClient_Get cl c) \<noteq> None \<or> urls s c \<noteq> None \<Longrightarrow>
   GetOriginalURL (cl\<lparr>storageClient_GetURL := g\<rparr>) now s c = GetOriginalURL cl now s c"
  by (auto simp: GetOriginalURL_def split: option.splits)

lemma GetOriginalURL_cache_hit_response:
  "cache_hit (cacheClient_Get cl c) = Some v \<Longrightarrow>
   response (GetOriginalURL cl now s c) = \<lparr>orig_OriginalUrl = v, orig_Found = True\<rparr>"
  by (simp add: GetOriginalURL_def incrementStats_def)

lemma GetURLStats_server: "server (GetURLStats cl RFC3339 s c) = s"
  by (simp add: GetURLStats_def split: option.splits rpc.splits)

text \<open>
  What does keep the three key sets equal: creation, a stats request, and a resolve that
  is not answered by the cache for a code the process does not hold.
\<close>

lemma ShortenURL_keys_agree:
  "keys_agree s \<Longrightarrow> keys_agree (server (ShortenURL unixNano now s u a))"
  by (auto simp: keys_agree_def ShortenURL_def Let_def)

lemma incrementStats_keys_agree:
  "keys_agree s \<Longrightarrow> c \<in> dom (urls s) \<Longrightarrow> keys_agree (fst (incrementStats s c))"
  by (auto simp: keys_agree_def incrementStats_def)

lemma GetOriginalURL_keys_agree:
  "keys_agree s \<Longrightarrow> cache_hit (cacheClient_Get cl c) = None \<or> c \<in> dom (urls s) \<Longrightarrow>
   keys_agree (server (GetOriginalURL cl now s c))"
  by (auto simp: keys_agree_def GetOriginalURL_def Let_def incrementStats_def
      split: option.splits)

text \<open>
  The counter of a code that has a local URL record: creation leaves it alone, a resolve
  of that code adds one, a resolve of another code leaves it alone.
\<close>

lemma ShortenURL_keeps_counter:
  "urls s c \<noteq> None \<Longrightarrow> stats (server (ShortenURL unixNano now s u a)) c = stats s c"
  by (auto simp: ShortenURL_def Let_def)

lemma GetOriginalURL_counter:
  "urls s c \<noteq> None \<Longrightarrow>
   stats (server (GetOriginalURL cl now s c')) c =
     (if c' = c then Some ((case stats s c of None \<Rightarrow> 0 | Some n \<Rightarrow> n) + 1) else stats s c)"
  by (auto simp: GetOriginalURL_def Let_def incrementStats_def split: option.splits)

lemma sint_succ: "sint (n::64 word) < 2 ^ 63 - 1 \<Longrightarrow> sint (n + 1) = sint n + 1"
proof -
  assume a: "sint n < 2 ^ 63 - 1"
  have "- (2 ^ 63) \<le> sint n"
    using sint_ge [of n] by simp
  with a have "signed_take_bit 63 (sint n + 1) = sint n + 1"
    by (simp add: signed_take_bit_int_eq_self)
  then show ?thesis
    by (simp add: sint_word_add)
qed

lemma resolve_counts_up:
  assumes "urls s c \<noteq> None" and "count s c < 2 ^ 63 - 1"
  shows "count s c \<le> count (server (GetOriginalURL cl now s c')) c"
proof (cases "c' = c")
  case True
  show ?thesis
  proof (cases "stats s c")
    case None
    with True assms show ?thesis
      by (simp add: GetOriginalURL_counter count_def)
  next
    case (Some n)
    with assms(2) have "sint (n + 1) = sint n + 1"
      by (simp add: count_def sint_succ)
    with True Some assms(1) show ?thesis
      by (simp add: GetOriginalURL_counter count_def)
  qed
next
  case False
  with assms(1) show ?thesis
    by (simp add: GetOriginalURL_counter count_def)
qed

section \<open>Create, then resolve\<close>

text \<open>
  C1, as the code has it. After a \<open>ShortenURL\<close> without custom alias that succeeds with
  code \<open>c\<close>, the next \<open>GetOriginalURL c\<close> of the same process returns \<open>found = true\<close>
  and never asks the durable store. The URL it returns is the one that was shortened when
  the fast cache reports no hit for \<open>c\<close> (a miss or an error); when the cache reports a
  hit, the cache's value is returned as it is, since the cache is asked before local state.
\<close>

theorem shorten_then_resolve:
  assumes "r1 = ShortenURL unixNano now s u []"
    and "shorten_Error (response r1) = []"
    and "r2 = GetOriginalURL cl now' (server r1) (shorten_ShortCode (response r1))"
  shows "orig_Found (response r2) \<and>
         orig_OriginalUrl (response r2) =
           (case cache_hit (cacheClient_Get cl (shorten_ShortCode (response r1))) of
              None \<Rightarrow> u | Some v \<Rightarrow> v) \<and>
         DurableStore \<notin> set (consulted r2)"
  using assms
  by (auto simp: ShortenURL_def GetOriginalURL_def Let_def incrementStats_def
           split: option.splits if_splits)

text \<open>
  C1 at a concrete input: a fresh server, the cache unreachable; the code \<open>aaaaaa\<close> resolves
  to the URL just shortened.
\<close>

theorem shorten_then_resolve_witness:
  "shorten_Error (response (ShortenURL clock_a 5 NewURLServer ''https://example.com'' [])) = [] \<and>
   shorten_ShortCode (response (ShortenURL clock_a 5 NewURLServer ''https://example.com'' []))
     = ''aaaaaa'' \<and>
   orig_Found (response (GetOriginalURL (wired cache_down Map.empty None stamp) 6
      (server (ShortenURL clock_a 5 NewURLServer ''https://example.com'' [])) ''aaaaaa'')) \<and>
   orig_OriginalUrl (response (GetOriginalURL (wired cache_down Map.empty None stamp) 6
      (server (ShortenURL clock_a 5 NewURLServer ''https://example.com'' [])) ''aaaaaa''))
     = ''https://example.com''"
proof -
  have c: "shorten_ShortCode
      (response (ShortenURL clock_a 5 NewURLServer ''https://example.com'' [])) = ''aaaaaa''"
    by (simp add: ShortenURL_def Let_def generateShortCode_clock_a NewURLServer_def)
  have e: "shorten_Error
      (response (ShortenURL clock_a 5 NewURLServer ''https://example.com'' [])) = []"
    by (simp add: ShortenURL_def Let_def generateShortCode_clock_a NewURLServer_def)
  show ?thesis
    using shorten_then_resolve [OF refl e refl, of "wired cache_down Map.empty None stamp" 6] c e
    by (simp add: wired_def cache_down_def)
qed

text \<open>
  C1 as it is written fails when the shared cache already holds another value for the
  code (written by another replica, or before a restart): the resolve right after the
  create returns the cache's URL, not the one just shortened.
\<close>

theorem resolve_prefers_cache_counterexample:
  "shorten_Error (response (ShortenURL clock_a 5 NewURLServer ''https://example.com'' [])) = [] \<and>
   shorten_ShortCode (response (ShortenURL clock_a 5 NewURLServer ''https://example.com'' []))
     = ''aaaaaa'' \<and>
   orig_OriginalUrl (response (GetOriginalURL
      (wired (cache_holding ''aaaaaa'' ''https://stale.example'') Map.empty None stamp) 6
      (server (ShortenURL clock_a 5 NewURLServer ''https://example.com'' [])) ''aaaaaa''))
     = ''https://stale.example'' \<and>
   orig_OriginalUrl (response (GetOriginalURL
      (wired (cache_holding ''aaaaaa'' ''https://stale.example'') Map.empty None stamp) 6
      (server (ShortenURL clock_a 5 NewURLServer ''https://example.com'' [])) ''aaaaaa''))
     \<noteq> ''https://example.com''"
  by (simp add: ShortenURL_def Let_def generateShortCode_clock_a NewURLServer_def
      GetOriginalURL_def wired_def cache_holding_def incrementStats_def)

section \<open>Custom aliases\<close>

text \<open>
  C2. When a first \<open>ShortenURL\<close> with the custom alias \<open>a\<close> has succeeded for \<open>u1\<close>, a
  second one with the same alias and any URL \<open>u2\<close> returns the error
  "Custom alias already exists", starts no goroutine and leaves the whole local state
  (all three maps, for every code) as it was, with \<open>a\<close> still mapped to \<open>u1\<close>.
\<close>

theorem duplicate_alias_rejected:
  assumes "a \<noteq> []"
    and "shorten_Error (response (ShortenURL n1 t1 s u1 a)) = []"
  shows "ShortenURL n2 t2 (server (ShortenURL n1 t1 s u1 a)) u2 a =
           \<lparr>response = \<lparr>shorten_ShortCode = [], shorten_OriginalUrl = [],
                         shorten_Error = ''Custom alias already exists''\<rparr>,
            server = server (ShortenURL n1 t1 s u1 a),
            consulted = [LocalState], spawned = []\<rparr> \<and>
         urls (server (ShortenURL n1 t1 s u1 a)) a = Some u1 \<and>
         shorten_ShortCode (response (ShortenURL n1 t1 s u1 a)) = a"
  using assms
  by (auto simp: ShortenURL_def Let_def split: if_splits)

text \<open>C2 at a concrete input: the alias \<open>promo\<close>, twice, on a fresh server.\<close>

theorem duplicate_alias_rejected_witness:
  "''promo'' \<noteq> [] \<and>
   shorten_Error
     (response (ShortenURL clock_a 5 NewURLServer ''https://first.example'' ''promo'')) = [] \<and>
   shorten_Error
     (response (ShortenURL clock_a 8 promo_server ''https://second.example'' ''promo''))
     = ''Custom alias already exists'' \<and>
   server (ShortenURL clock_a 8 promo_server ''https://second.example'' ''promo'')
     = promo_server \<and>
   urls promo_server ''promo'' = Some ''https://first.example''"
proof -
  have a: "''promo'' \<noteq> []" by simp
  have e: "shorten_Error
      (response (ShortenURL clock_a 5 NewURLServer ''https://first.example'' ''promo'')) = []"
    by (simp add: ShortenURL_def Let_def NewURLServer_def)
  show ?thesis
    using duplicate_alias_rejected [OF a e, of clock_a 8 "''https://second.example''"] e
    by (simp add: promo_server_def)
qed

section \<open>The lookup cascade\<close>

text \<open>
  C3. \<open>GetOriginalURL\<close> reads the tiers in the order fast cache, local state, durable
  store and stops at the first hit: on a cache hit only the cache is read, on a local hit
  the cache and local state, and the durable store only when both missed. It returns
  \<open>found = false\<close> exactly when all three tiers report no hit (a collaborator's error
  counts as no hit), and the URL returned is the one of the first tier that hit.
\<close>

theorem resolve_cascade:
  "consulted (GetOriginalURL cl now s c) =
     (if cache_hit (cacheClient_Get cl c) \<noteq> None then [FastCache]
      else if urls s c \<noteq> None then [FastCache, LocalState]
      else [FastCache, LocalState, DurableStore]) \<and>
   (orig_Found (response (GetOriginalURL cl now s c)) = False \<longleftrightarrow>
      cache_hit (cacheClient_Get cl c) = None \<and> urls s c = None \<and>
      storage_hit (storageClient_GetURL cl c) = None) \<and>
   orig_OriginalUrl (response (GetOriginalURL cl now s c)) =
     (case cache_hit (cacheClient_Get cl c) of
        Some v \<Rightarrow> v
      | None \<Rightarrow> (case urls s c of
          Some u \<Rightarrow> u
        | None \<Rightarrow> (case storage_hit (storageClient_GetURL cl c) of
            Some u \<Rightarrow> u | None \<Rightarrow> [])))"
  by (auto simp: GetOriginalURL_def Let_def incrementStats_def split: option.splits)

text \<open>
  C3 at concrete inputs: a code only the durable store holds (all three tiers read), the
  same code held by the cache (only the cache read), and an unknown code (not found).
\<close>

theorem resolve_cascade_witness:
  "consulted (GetOriginalURL (wired cache_empty table_abc None stamp) 3 NewURLServer ''abc123'')
     = [FastCache, LocalState, DurableStore] \<and>
   orig_Found (response
     (GetOriginalURL (wired cache_empty table_abc None stamp) 3 NewURLServer ''abc123'')) \<and>
   consulted (GetOriginalURL
       (wired (cache_holding ''abc123'' ''https://x.com'') table_abc None stamp) 3
       NewURLServer ''abc123'')
     = [FastCache] \<and>
   \<not> orig_Found (response
     (GetOriginalURL (wired cache_empty table_abc None stamp) 3 NewURLServer ''zzz000''))"
  using resolve_cascade [of "wired cache_empty table_abc None stamp" 3 NewURLServer "''abc123''"]
    resolve_cascade [of "wired (cache_holding ''abc123'' ''https://x.com'') table_abc None stamp"
      3 NewURLServer "''abc123''"]
    resolve_cascade [of "wired cache_empty table_abc None stamp" 3 NewURLServer "''zzz000''"]
  by (simp add: wired_def cache_empty_def cache_holding_def table_abc_def NewURLServer_def
      storage_GetURL_def QueryRow_def)

text \<open>
  C9 as it is written fails: for a code that local state holds, a cache hit decides the
  result before local state is read. Here local state maps \<open>promo\<close> to one URL, the cache
  to another, and the cache's URL is returned with only the cache consulted.
\<close>

theorem cache_decides_before_local_counterexample:
  "urls local_promo ''promo'' = Some ''https://local.example'' \<and>
   response (GetOriginalURL
      (wired (cache_holding ''promo'' ''https://cached.example'') Map.empty None stamp)
      6 local_promo ''promo'')
     = \<lparr>orig_OriginalUrl = ''https://cached.example'', orig_Found = True\<rparr> \<and>
   consulted (GetOriginalURL
      (wired (cache_holding ''promo'' ''https://cached.example'') Map.empty None stamp)
      6 local_promo ''promo'')
     = [FastCache]"
  by (simp add: local_promo_def ShortenURL_def Let_def NewURLServer_def GetOriginalURL_def
      wired_def cache_holding_def incrementStats_def)

text \<open>
  C9, as the code has it. The resolver asks the fast cache first, then local state, then
  the durable store. For a code present in local state, \<open>GetOriginalURL\<close> answers from
  local state exactly when the cache reports no hit; when the cache reports a hit, its
  value is the answer and local state is not read.
\<close>

theorem local_answers_after_cache_miss:
  assumes "urls s c = Some u"
  shows "hd (consulted (GetOriginalURL cl now s c)) = FastCache \<and>
         consulted (GetOriginalURL cl now s c) =
           (case cache_hit (cacheClient_Get cl c) of
              None \<Rightarrow> [FastCache, LocalState] | Some v \<Rightarrow> [FastCache]) \<and>
         response (GetOriginalURL cl now s c) =
           \<lparr>orig_OriginalUrl =
              (case cache_hit (cacheClient_Get cl c) of None \<Rightarrow> u | Some v \<Rightarrow> v),
            orig_Found = True\<rparr>"
  using assms
  by (auto simp: GetOriginalURL_def Let_def incrementStats_def split: option.splits)

text \<open>C9 at a concrete input: the cache is down, and \<open>promo\<close> is answered from local state.\<close>

theorem local_answers_after_cache_miss_witness:
  "urls local_promo ''promo'' = Some ''https://local.example'' \<and>
   consulted (GetOriginalURL storage_down 6 local_promo ''promo'') = [FastCache, LocalState] \<and>
   response (GetOriginalURL storage_down 6 local_promo ''promo'')
     = \<lparr>orig_OriginalUrl = ''https://local.example'', orig_Found = True\<rparr>"
proof -
  have h: "urls local_promo ''promo'' = Some ''https://local.example''"
    by (simp add: local_promo_def ShortenURL_def Let_def NewURLServer_def)
  show ?thesis
    using local_answers_after_cache_miss [OF h, of storage_down 6] h
    by (simp add: storage_down_def cache_down_def)
qed

text \<open>
  C7. For a code \<open>c\<close> that the fast cache does not report, that local state does not hold
  and that the durable store finds with URL \<open>u\<close>, \<open>GetOriginalURL c\<close> returns
  \<open>found = true\<close> with \<open>u\<close>; the state it leaves maps \<open>c\<close> to \<open>u\<close>, so the next resolve
  that misses the cache is answered from local state without reading the durable store;
  and it starts the cache-warm write of \<open>c\<close> to \<open>u\<close> (one hour) and the durable click
  increment.
\<close>

theorem durable_hit_materialises:
  assumes "cache_hit (cacheClient_Get cl c) = None"
    and "urls s c = None"
    and "storageClient_GetURL cl c = RpcOk resp"
    and "geturl_Found resp"
    and "geturl_OriginalUrl resp = u"
  shows "response (GetOriginalURL cl now s c) = \<lparr>orig_OriginalUrl = u, orig_Found = True\<rparr> \<and>
         urls (server (GetOriginalURL cl now s c)) c = Some u \<and>
         spawned (GetOriginalURL cl now s c) = [GoCacheSet c u 3600, GoIncrementClick c] \<and>
         (\<forall>cl' now'. cache_hit (cacheClient_Get cl' c) = None \<longrightarrow>
            response (GetOriginalURL cl' now' (server (GetOriginalURL cl now s c)) c)
              = \<lparr>orig_OriginalUrl = u, orig_Found = True\<rparr> \<and>
            consulted (GetOriginalURL cl' now' (server (GetOriginalURL cl now s c)) c)
              = [FastCache, LocalState])"
  using assms
  by (auto simp: GetOriginalURL_def Let_def incrementStats_def warmCache_def
      split: option.splits)

text \<open>
  C7 at a concrete input: only the storage table holds \<open>abc123\<close>; afterwards the code is
  resolved locally even with the storage service unreachable.
\<close>

theorem durable_hit_materialises_witness:
  "cache_hit (cacheClient_Get (wired cache_empty table_abc None stamp) ''abc123'') = None \<and>
   urls NewURLServer ''abc123'' = None \<and>
   response (GetOriginalURL (wired cache_empty table_abc None stamp) 3 NewURLServer ''abc123'')
     = \<lparr>orig_OriginalUrl = ''https://x.com'', orig_Found = True\<rparr> \<and>
   urls (server (GetOriginalURL (wired cache_empty table_abc None stamp) 3 NewURLServer ''abc123''))
     ''abc123'' = Some ''https://x.com'' \<and>
   spawned (GetOriginalURL (wired cache_empty table_abc None stamp) 3 NewURLServer ''abc123'')
     = [GoCacheSet ''abc123'' ''https://x.com'' 3600, GoIncrementClick ''abc123''] \<and>
   consulted (GetOriginalURL storage_down 4
       (server (GetOriginalURL (wired cache_empty table_abc None stamp) 3 NewURLServer ''abc123''))
       ''abc123'')
     = [FastCache, LocalState]"
proof -
  have h1: "cache_hit (cacheClient_Get (wired cache_empty table_abc None stamp) ''abc123'') = None"
    by (simp add: wired_def cache_empty_def)
  have h2: "urls NewURLServer ''abc123'' = None"
    by (simp add: NewURLServer_def)
  have h3: "storageClient_GetURL (wired cache_empty table_abc None stamp) ''abc123''
      = RpcOk \<lparr>geturl_OriginalUrl = ''https://x.com'', geturl_Found = True, geturl_Error = []\<rparr>"
    by (simp add: wired_def storage_GetURL_def QueryRow_def table_abc_def)
  have h4: "cache_hit (cacheClient_Get storage_down ''abc123'') = None"
    by (simp add: storage_down_def cache_down_def)
  show ?thesis
    using durable_hit_materialises [OF h1 h2 h3, of "''https://x.com''" 3] h1 h2 h4
    by simp
qed

section \<open>Statistics\<close>

text \<open>
  What \<open>GetURLStats\<close> does on a state where the code has its creation time beside its
  counter: it answers from local state alone. Where the process holds no counter, the
  answer is that of the durable stats call.
\<close>

lemma GetURLStats_local:
  "stats s c = Some n \<Longrightarrow> createdAt s c = Some t \<Longrightarrow>
   GetURLStats cl RFC3339 s c =
     \<lparr>response = \<lparr>stats_ShortCode = c, stats_ClickCount = n,
                   stats_CreatedAt = RFC3339 t, stats_Error = []\<rparr>,
      server = s, consulted = [LocalState], spawned = []\<rparr>"
  by (simp add: GetURLStats_def)

lemma GetURLStats_durable:
  "stats s c = None \<Longrightarrow>
   GetURLStats cl RFC3339 s c =
     \<lparr>response =
        (case storageClient_GetStats cl c of
           RpcError e \<Rightarrow> not_found
         | RpcOk r \<Rightarrow>
             if getstats_Error r = [] then
               \<lparr>stats_ShortCode = c, stats_ClickCount = getstats_ClickCount r,
                stats_CreatedAt = getstats_CreatedAt r, stats_Error = []\<rparr>
             else not_found),
      server = s, consulted = [LocalState, DurableStore], spawned = []\<rparr>"
  by (simp add: GetURLStats_def split: rpc.splits)

lemma GetURLStats_never_created:
  "stats s c = None \<Longrightarrow> db c = None \<Longrightarrow>
   response (GetURLStats (wired cache db None RFC3339) RFC3339 s c) =
     \<lparr>stats_ShortCode = [], stats_ClickCount = 0, stats_CreatedAt = [],
      stats_Error = ''URL not found''\<rparr>"
  by (simp add: GetURLStats_def not_found_def wired_def storage_GetStats_def QueryRow_def)

text \<open>
  C8 fails on a code the process has only counted. A fresh process resolves \<open>abc123\<close>
  once through the cache, which leaves a counter of 1 and neither URL nor creation time.
  The storage table holds the code with 7 clicks and its creation time. \<open>GetURLStats\<close>
  then finds the counter, does not ask the durable store, and answers count 1 with the
  zero time: neither a creation time from local state (there is none) nor the result of
  the durable lookup.
\<close>

theorem stats_of_counted_only_code:
  "urls once ''abc123'' = None \<and>
   createdAt once ''abc123'' = None \<and>
   storageClient_GetStats cached_abc ''abc123'' =
     RpcOk \<lparr>getstats_ShortCode = ''abc123'', getstats_ClickCount = 7,
            getstats_CreatedAt = ''2025-01-01T00:00:00Z'', getstats_Error = []\<rparr> \<and>
   GetURLStats cached_abc stamp once ''abc123'' =
     \<lparr>response = \<lparr>stats_ShortCode = ''abc123'', stats_ClickCount = 1,
                   stats_CreatedAt = ''0001-01-01T00:00:00Z'', stats_Error = []\<rparr>,
      server = once, consulted = [LocalState], spawned = []\<rparr>"
  by (simp add: once_def NewURLServer_def GetOriginalURL_def cached_abc_def wired_def
      cache_holding_def incrementStats_def GetURLStats_def storage_GetStats_def QueryRow_def
      table_abc_def stamp_def)

text \<open>
  C10. For a code the process holds no counter for, any failure of the durable stats
  call, whether the call itself fails or the reply carries a non-empty error string of
  any content, makes \<open>GetURLStats\<close> return exactly the "URL not found" response, with
  the state unchanged: an unreachable store and an absent code give the same answer.
\<close>

theorem stats_failure_reads_as_not_found:
  assumes "stats s c = None"
    and "(\<exists>e. storageClient_GetStats cl c = RpcError e) \<or>
         (\<exists>r. storageClient_GetStats cl c = RpcOk r \<and> getstats_Error r \<noteq> [])"
  shows "GetURLStats cl RFC3339 s c =
           \<lparr>response = \<lparr>stats_ShortCode = [], stats_ClickCount = 0, stats_CreatedAt = [],
                         stats_Error = ''URL not found''\<rparr>,
            server = s, consulted = [LocalState, DurableStore], spawned = []\<rparr>"
  using assms
  by (auto simp: GetURLStats_def not_found_def)

text \<open>
  C10 at concrete inputs: the storage service unreachable, and the storage service
  reachable with its database refusing the query, for a code its table does hold.
\<close>

theorem stats_failure_reads_as_not_found_witness:
  "stats taken_server ''abc123'' = None \<and>
   storageClient_GetStats storage_down ''abc123'' = RpcError ''connection refused'' \<and>
   stats_Error (response (GetURLStats storage_down stamp taken_server ''abc123''))
     = ''URL not found'' \<and>
   storageClient_GetStats
       (wired cache_empty table_abc (Some ''pq: too many connections'') stamp) ''abc123''
     = RpcOk \<lparr>getstats_ShortCode = [], getstats_ClickCount = 0, getstats_CreatedAt = [],
         getstats_Error = ''pq: too many connections''\<rparr> \<and>
   stats_Error (response (GetURLStats
      (wired cache_empty table_abc (Some ''pq: too many connections'') stamp) stamp
      taken_server ''abc123''))
     = ''URL not found''"
proof -
  have h1: "stats taken_server ''abc123'' = None"
    by (simp add: taken_server_def ShortenURL_def Let_def generateShortCode_clock_a
        NewURLServer_def)
  have h2: "storageClient_GetStats storage_down ''abc123'' = RpcError ''connection refused''"
    by (simp add: storage_down_def)
  have h3: "storageClient_GetStats
       (wired cache_empty table_abc (Some ''pq: too many connections'') stamp) ''abc123''
     = RpcOk \<lparr>getstats_ShortCode = [], getstats_ClickCount = 0, getstats_CreatedAt = [],
         getstats_Error = ''pq: too many connections''\<rparr>"
    by (simp add: wired_def storage_GetStats_def QueryRow_def)
  have d1: "(\<exists>e. storageClient_GetStats storage_down ''abc123'' = RpcError e) \<or>
         (\<exists>r. storageClient_GetStats storage_down ''abc123'' = RpcOk r \<and>
              getstats_Error r \<noteq> [])"
    using h2 by simp
  have d2: "(\<exists>e. storageClient_GetStats
              (wired cache_empty table_abc (Some ''pq: too many connections'') stamp) ''abc123''
              = RpcError e) \<or>
         (\<exists>r. storageClient_GetStats
              (wired cache_empty table_abc (Some ''pq: too many connections'') stamp) ''abc123''
              = RpcOk r \<and> getstats_Error r \<noteq> [])"
    using h3 by simp
  show ?thesis
    using stats_failure_reads_as_not_found [OF h1 d1, of stamp]
      stats_failure_reads_as_not_found [OF h1 d2, of stamp] h1 h2 h3
    by simp
qed

section \<open>Collisions of generated codes\<close>

text \<open>
  C6 as it is written fails: no second code is generated and no capacity error exists.
  The server already holds \<open>aaaaaa\<close>; a request without alias generates \<open>aaaaaa\<close> again
  and is refused at once with the alias-conflict error, although the clock has moved on
  by the seventh reading.
\<close>

theorem collision_is_conflict_counterexample:
  "urls taken_server (generateShortCode clock_switch) \<noteq> None \<and>
   clock_switch 6 \<noteq> clock_switch 0 \<and>
   ShortenURL clock_switch 8 taken_server ''https://second.example'' [] =
     \<lparr>response = \<lparr>shorten_ShortCode = [], shorten_OriginalUrl = [],
                   shorten_Error = ''Custom alias already exists''\<rparr>,
      server = taken_server, consulted = [LocalState], spawned = []\<rparr>"
  by (simp add: taken_server_def ShortenURL_def Let_def generateShortCode_clock_a NewURLServer_def
      generateShortCode_clock_switch clock_switch_def)

text \<open>
  C6, as the code has it. When \<open>ShortenURL\<close> is called without a custom alias and the
  generated code is already held locally, the engine does not generate another code: it
  returns the error "Custom alias already exists" at once, with the local state unchanged
  and no goroutine started, whatever the clock reads after the six readings that made
  the code.
\<close>

theorem collision_fails_without_retry:
  assumes "urls s (generateShortCode unixNano) \<noteq> None"
    and "\<forall>i<6. unixNano' i = unixNano i"
  shows "ShortenURL unixNano' now s u [] =
     \<lparr>response = \<lparr>shorten_ShortCode = [], shorten_OriginalUrl = [],
                   shorten_Error = ''Custom alias already exists''\<rparr>,
      server = s, consulted = [LocalState], spawned = []\<rparr>"
proof -
  have "generateShortCode unixNano' = generateShortCode unixNano"
    using assms(2) by (rule generateShortCode_cong)
  with assms(1) show ?thesis
    by (simp add: ShortenURL_def Let_def)
qed

text \<open>C6 at a concrete input: the code \<open>aaaaaa\<close> is taken and generated again.\<close>

theorem collision_fails_without_retry_witness:
  "urls taken_server (generateShortCode clock_a) \<noteq> None \<and>
   clock_switch 0 = clock_a 0 \<and> clock_switch 5 = clock_a 5 \<and>
   shorten_Error (response (ShortenURL clock_switch 8 taken_server ''https://second.example'' []))
     = ''Custom alias already exists'' \<and>
   server (ShortenURL clock_switch 8 taken_server ''https://second.example'' []) = taken_server"
proof -
  have h1: "urls taken_server (generateShortCode clock_a) \<noteq> None"
    by (simp add: taken_server_def ShortenURL_def Let_def generateShortCode_clock_a
        NewURLServer_def)
  have h2: "\<forall>i<6. clock_switch i = clock_a i"
    by (simp add: clock_switch_def clock_a_def)
  have r: "ShortenURL clock_switch 8 taken_server ''https://second.example'' [] =
     \<lparr>response = \<lparr>shorten_ShortCode = [], shorten_OriginalUrl = [],
                   shorten_Error = ''Custom alias already exists''\<rparr>,
      server = taken_server, consulted = [LocalState], spawned = []\<rparr>"
    by (rule collision_fails_without_retry [OF h1 h2])
  have k: "clock_switch 0 = clock_a 0" "clock_switch 5 = clock_a 5"
    by (simp_all add: clock_switch_def clock_a_def)
  show ?thesis
    using h1 k by (simp add: r)
qed

section \<open>The counter of a code resolved through the cache\<close>

text \<open>
  C4 fails on the cache-hit path. A fresh process (all three maps empty) resolves
  \<open>abc123\<close> through the cache: \<open>incrementStats\<close> creates a \<open>stats\<close> entry with count 1,
  while \<open>urls\<close> and \<open>createdAt\<close> get none, so the three key sets differ afterwards.
\<close>

theorem cache_hit_orphans_counter:
  "keys_agree NewURLServer \<and>
   response (GetOriginalURL cached_abc 1 NewURLServer ''abc123'')
     = \<lparr>orig_OriginalUrl = ''https://x.com'', orig_Found = True\<rparr> \<and>
   stats (server (GetOriginalURL cached_abc 1 NewURLServer ''abc123'')) ''abc123'' = Some 1 \<and>
   urls (server (GetOriginalURL cached_abc 1 NewURLServer ''abc123'')) ''abc123'' = None \<and>
   createdAt (server (GetOriginalURL cached_abc 1 NewURLServer ''abc123'')) ''abc123'' = None \<and>
   \<not> keys_agree (server (GetOriginalURL cached_abc 1 NewURLServer ''abc123''))"
  by (auto simp: keys_agree_def NewURLServer_def GetOriginalURL_def cached_abc_def wired_def
      cache_holding_def incrementStats_def)

text \<open>
  C5 fails after such cache hits. The process has counted three resolves of \<open>abc123\<close>
  through the cache and holds no URL for it; once the cache entry has expired, the next
  resolve is a durable hit, which writes the counter back to 0 before counting: the
  in-process counter goes from 3 to 1.
\<close>

theorem durable_hit_resets_counter:
  "stats thrice ''abc123'' = Some 3 \<and>
   urls thrice ''abc123'' = None \<and>
   response (GetOriginalURL expired_abc 4 thrice ''abc123'')
     = \<lparr>orig_OriginalUrl = ''https://x.com'', orig_Found = True\<rparr> \<and>
   stats (server (GetOriginalURL expired_abc 4 thrice ''abc123'')) ''abc123'' = Some 1 \<and>
   count (server (GetOriginalURL expired_abc 4 thrice ''abc123'')) ''abc123''
     < count thrice ''abc123''"
  by (simp add: thrice_def count_def NewURLServer_def GetOriginalURL_def cached_abc_def
      expired_abc_def wired_def cache_holding_def cache_empty_def incrementStats_def
      storage_GetURL_def QueryRow_def table_abc_def)

end
